theory Spec2Isabelle
  imports Main
begin

section \<open>Zoom presence binary sensor (custom_components/zoom/binary_sensor.py)\<close>

text \<open>
  The entity classes of the module are embedded as one record of the instance attributes
  the methods read and write, together with a trace of what the methods do to their
  collaborators (log records, calls of \<^verbatim>\<open>async_write_ha_state\<close>, calls of the Zoom API,
  registrations with \<^verbatim>\<open>async_on_remove\<close>). Each method is a function from the state
  before to the state after; what an awaited collaborator returns is an argument.
\<close>

subsection \<open>Python values\<close>

text \<open>
  The values that occur in event payloads and in \<^verbatim>\<open>_is_on\<close>: \<^verbatim>\<open>None\<close>, booleans,
  strings and dictionaries with string keys (an association list, looked up with
  \<^const>\<open>map_of\<close>). Strings are lists of 8-bit characters.
\<close>

datatype pyval =
    PNone
  | PBool bool
  | PStr string
  | PDict "(string \<times> pyval) list"

text \<open>Python's truth value of an object, as used by \<^verbatim>\<open>if\<close>, \<^verbatim>\<open>and\<close> and \<^verbatim>\<open>or\<close>.\<close>

fun truthy :: "pyval \<Rightarrow> bool" where
  "truthy PNone = False"
| "truthy (PBool b) = b"
| "truthy (PStr s) = (s \<noteq> [])"
| "truthy (PDict kvs) = (kvs \<noteq> [])"

text \<open>A value of type \<^verbatim>\<open>str | None\<close> seen as a Python value.\<close>

fun of_str_opt :: "string option \<Rightarrow> pyval" where
  "of_str_opt None = PNone"
| "of_str_opt (Some s) = PStr s"

text \<open>\<^verbatim>\<open>a and b\<close>: the left operand when it is falsy, else the right one.\<close>

definition py_and :: "pyval \<Rightarrow> pyval \<Rightarrow> pyval" where
  "py_and a b = (if truthy a then b else a)"

text \<open>\<^verbatim>\<open>a or b\<close> on values of type \<^verbatim>\<open>str | None\<close>.\<close>

fun str_or :: "string option \<Rightarrow> string option \<Rightarrow> string option" where
  "str_or (Some s) b = (if s \<noteq> [] then Some s else b)"
| "str_or None b = b"

text \<open>
  \<^verbatim>\<open>str.lower\<close> folds every cased letter of Unicode; its table is Python's and not the
  module's. The event listener therefore takes the lower-casing function as a parameter
  (\<open>lower\<close>), and what is proved of it holds for every such function. On a string of
  ASCII characters \<^verbatim>\<open>str.lower\<close> folds the letters A to Z and nothing else; that
  restriction is \<open>ascii_lower\<close>, used where a concrete function is needed.
\<close>

definition ascii_lower_char :: "char \<Rightarrow> char" where
  "ascii_lower_char c =
     (let n = (of_char c :: nat)
      in if 65 \<le> n \<and> n \<le> 90 then char_of (n + 32) else c)"

definition ascii_lower :: "string \<Rightarrow> string" where
  "ascii_lower s = map ascii_lower_char s"

datatype exn = KeyError | AttributeError

subsection \<open>Collaborators\<close>

text \<open>A user profile as the Zoom API returns it: \<^verbatim>\<open>dict[str, str]\<close>.\<close>

type_synonym profile = "(string \<times> string) list"

text \<open>
  What \<^verbatim>\<open>await self._api.async_get_contact_user_profile(self.id)\<close> does: it returns a
  profile, raises \<^verbatim>\<open>HTTPUnauthorized\<close>, or raises something else.
\<close>

datatype fetch_outcome =
    Fetched profile
  | Unauthorized
  | OtherFailure

fun is_success :: "fetch_outcome \<Rightarrow> bool" where
  "is_success (Fetched p) = True"
| "is_success Unauthorized = False"
| "is_success OtherFailure = False"

text \<open>
  The config entry: \<^verbatim>\<open>entry_id\<close>, \<^verbatim>\<open>data.get(CONF_ID)\<close> and
  \<^verbatim>\<open>options[CONF_CONNECTIVITY_ON_STATUSES]\<close>.
\<close>

record config_entry =
  entry_id :: string
  data_id :: "string option"
  connectivity_on_statuses :: "string list"

text \<open>
  The constants of \<^verbatim>\<open>const.py\<close> that the event listener uses. That file is not part of
  the sources at hand, so the methods take them as a parameter.
\<close>

record zoom_consts =
  ATTR_EVENT :: string
  CONNECTIVITY_EVENT :: string
  CONNECTIVITY_ID :: "string list"
  CONNECTIVITY_STATUS :: "string list"

text \<open>The records written to \<^verbatim>\<open>_LOGGER\<close>, one constructor per call site.\<close>

datatype log_level = DEBUG | INFO | WARNING

datatype log_record =
    ReachableAgain
  | UnableToReach
  | RetrievedInitialStatus string
  | UnauthorizedRestoring
  | ErrorRetrievingRestoring
  | IdUnknownRestoring
  | SetStateTo "string option" pyval

fun level :: "log_record \<Rightarrow> log_level" where
  "level ReachableAgain = INFO"
| "level UnableToReach = WARNING"
| "level (RetrievedInitialStatus s) = DEBUG"
| "level UnauthorizedRestoring = DEBUG"
| "level ErrorRetrievingRestoring = WARNING"
| "level IdUnknownRestoring = DEBUG"
| "level (SetStateTo s v) = DEBUG"

text \<open>The callbacks handed to \<^verbatim>\<open>async_on_remove\<close>.\<close>

datatype subscription =
    UpdateListener
  | DispatcherConnect
  | CoordinatorListener
  | TimeInterval
  | BusListen

subsection \<open>The entity\<close>

text \<open>
  \<^verbatim>\<open>ZoomBaseBinarySensor\<close> and its two subclasses differ in the properties \<^verbatim>\<open>profile\<close>
  and \<^verbatim>\<open>id\<close> and in \<^verbatim>\<open>async_added_to_hass\<close>; the class of the instance is a field.
\<close>

datatype sensor_class =
    ZoomBaseBinarySensor
  | ZoomAuthenticatedUserBinarySensor
  | ZoomContactUserBinarySensor string

record entity =
  sensor_class :: sensor_class
  config_entry :: config_entry
  coordinator_data :: "profile option"
  priv_profile :: "profile option"
  priv_zoom_event_state :: "string option"
  priv_is_on :: pyval
  attr_available :: bool
  logged :: "log_record list"
  ha_state_writes :: nat
  api_calls :: "string list"
  on_remove :: "subscription list"

text \<open>\<^verbatim>\<open>__init__\<close>: no profile, no Zoom state, off, available.\<close>

definition init :: "sensor_class \<Rightarrow> config_entry \<Rightarrow> profile option \<Rightarrow> entity" where
  "init cls entry coord =
     \<lparr> sensor_class = cls,
       config_entry = entry,
       coordinator_data = coord,
       priv_profile = None,
       priv_zoom_event_state = None,
       priv_is_on = PBool False,
       attr_available = True,
       logged = [],
       ha_state_writes = 0,
       api_calls = [],
       on_remove = [] \<rparr>"

definition emit :: "log_record \<Rightarrow> entity \<Rightarrow> entity" where
  "emit r st = st\<lparr>logged := logged st @ [r]\<rparr>"

definition async_write_ha_state :: "entity \<Rightarrow> entity" where
  "async_write_ha_state st = st\<lparr>ha_state_writes := Suc (ha_state_writes st)\<rparr>"

definition async_on_remove :: "subscription \<Rightarrow> entity \<Rightarrow> entity" where
  "async_on_remove s st = st\<lparr>on_remove := on_remove st @ [s]\<rparr>"

subsection \<open>Properties\<close>

definition is_on :: "entity \<Rightarrow> pyval" where
  "is_on st = priv_is_on st"

definition available :: "entity \<Rightarrow> bool" where
  "available st = attr_available st"

definition zoom_event_state :: "entity \<Rightarrow> string option" where
  "zoom_event_state st = priv_zoom_event_state st"

text \<open>
  \<^verbatim>\<open>self._profile or {}\<close> in the base class,
  \<^verbatim>\<open>self._profile or self._coordinator.data or {}\<close> for the authenticated user: an empty
  dictionary is falsy.
\<close>

fun dict_or :: "profile option \<Rightarrow> profile \<Rightarrow> profile" where
  "dict_or (Some p) q = (if p \<noteq> [] then p else q)"
| "dict_or None q = q"

definition profile :: "entity \<Rightarrow> profile" where
  "profile st =
     (case sensor_class st of
        ZoomAuthenticatedUserBinarySensor \<Rightarrow>
          dict_or (priv_profile st) (dict_or (coordinator_data st) [])
      | _ \<Rightarrow> dict_or (priv_profile st) [])"

text \<open>\<^verbatim>\<open>id\<close>: the configured id or else the profile's; the contact's own id for a contact.\<close>

definition id_prop :: "entity \<Rightarrow> string option" where
  "id_prop st =
     (case sensor_class st of
        ZoomContactUserBinarySensor i \<Rightarrow> Some i
      | _ \<Rightarrow> str_or (data_id (config_entry st)) (map_of (profile st) ''id''))"

definition first_name :: "entity \<Rightarrow> string option" where
  "first_name st = map_of (profile st) ''first_name''"

definition last_name :: "entity \<Rightarrow> string option" where
  "last_name st = map_of (profile st) ''last_name''"

definition email :: "entity \<Rightarrow> string option" where
  "email st = map_of (profile st) ''email''"

definition account_id :: "entity \<Rightarrow> string option" where
  "account_id st = map_of (profile st) ''account_id''"

text \<open>\<^verbatim>\<open>if self.id:\<close>\<close>

definition id_known :: "entity \<Rightarrow> bool" where
  "id_known st = truthy (of_str_opt (id_prop st))"

subsection \<open>The status mapper\<close>

text \<open>\<^verbatim>\<open>x in xs\<close> for a status of type \<^verbatim>\<open>str | None\<close> and a list of strings.\<close>

fun py_in :: "string option \<Rightarrow> string list \<Rightarrow> bool" where
  "py_in (Some x) xs = (x \<in> set xs)"
| "py_in None xs = False"

text \<open>
  \<^verbatim>\<open>_set_state\<close> stores the raw status and then
  \<^verbatim>\<open>self._zoom_event_state and self._zoom_event_state in options[...]\<close>.
\<close>

definition set_state :: "string option \<Rightarrow> entity \<Rightarrow> entity" where
  "set_state s st =
     (let st1 = st\<lparr>priv_zoom_event_state := s\<rparr>;
          st2 = st1\<lparr>priv_is_on :=
                  py_and (of_str_opt (priv_zoom_event_state st1))
                    (PBool (py_in (priv_zoom_event_state st1)
                       (connectivity_on_statuses (config_entry st1))))\<rparr>
      in emit (SetStateTo s (priv_is_on st2)) st2)"

subsection \<open>The poller\<close>

text \<open>
  The bare \<^verbatim>\<open>except:\<close> of \<^verbatim>\<open>_async_update\<close>: it runs for whatever the \<^verbatim>\<open>try\<close> block
  raises, with the attributes as they are at that moment.
\<close>

definition update_except :: "entity \<Rightarrow> entity" where
  "update_except st =
     (if attr_available st
      then async_write_ha_state ((emit UnableToReach st)\<lparr>attr_available := False\<rparr>)
      else st)"

text \<open>
  \<^verbatim>\<open>_async_update\<close>; \<open>outcome\<close> is what the API call does if it is made. The profile
  is assigned before anything else; \<^verbatim>\<open>self._profile["presence_status"]\<close> raises
  \<^verbatim>\<open>KeyError\<close> on a profile without that key, inside the \<^verbatim>\<open>try\<close> block and after the
  info record was written.
\<close>

definition async_update :: "fetch_outcome \<Rightarrow> entity \<Rightarrow> entity" where
  "async_update outcome st =
     (if id_known st then
        (let st1 = st\<lparr>api_calls := api_calls st @ [the (id_prop st)]\<rparr>
         in case outcome of
              Fetched p \<Rightarrow>
                (let st2 = st1\<lparr>priv_profile := Some p\<rparr>
                 in if \<not> attr_available st2 then
                      (let st3 = emit ReachableAgain st2
                       in case map_of p ''presence_status'' of
                            None \<Rightarrow> update_except st3
                          | Some status \<Rightarrow>
                              async_write_ha_state
                                ((set_state (Some status) st3)\<lparr>attr_available := True\<rparr>))
                    else st2)
            | Unauthorized \<Rightarrow> update_except st1
            | OtherFailure \<Rightarrow> update_except st1)
      else st)"

text \<open>A run of the timer: one call per tick, each with the outcome of its own fetch.\<close>

fun polls :: "fetch_outcome list \<Rightarrow> entity \<Rightarrow> entity" where
  "polls [] st = st"
| "polls (outcome # rest) st = polls rest (async_update outcome st)"

subsection \<open>Restoring and bootstrap\<close>

text \<open>
  \<^verbatim>\<open>_restore_state\<close>; the argument is what \<^verbatim>\<open>async_get_last_state\<close> returns:
  \<open>None\<close>, or a state object, given by its attribute \<^verbatim>\<open>state\<close> (for a binary
  sensor the string "on" or "off").
\<close>

fun restore_state :: "pyval option \<Rightarrow> entity \<Rightarrow> entity" where
  "restore_state None st = st"
| "restore_state (Some v) st = st\<lparr>priv_is_on := v\<rparr>"

text \<open>
  \<^verbatim>\<open>ZoomBaseBinarySensor.async_added_to_hass\<close>: four registrations, then one fetch or
  the restore. A profile without \<^verbatim>\<open>presence_status\<close> raises \<^verbatim>\<open>KeyError\<close>, which the
  second handler catches.
\<close>

definition base_async_added_to_hass :: "pyval option \<Rightarrow> fetch_outcome \<Rightarrow> entity \<Rightarrow> entity" where
  "base_async_added_to_hass last_state outcome st =
     (let st0 = async_on_remove TimeInterval
                  (async_on_remove CoordinatorListener
                    (async_on_remove DispatcherConnect
                      (async_on_remove UpdateListener st)))
      in if id_known st0 then
           (let st1 = st0\<lparr>api_calls := api_calls st0 @ [the (id_prop st0)]\<rparr>
            in case outcome of
                 Fetched p \<Rightarrow>
                   (let st2 = st1\<lparr>priv_profile := Some p\<rparr>
                    in case map_of p ''presence_status'' of
                         None \<Rightarrow> restore_state last_state (emit ErrorRetrievingRestoring st2)
                       | Some status \<Rightarrow>
                           async_write_ha_state
                             (set_state (Some status) (emit (RetrievedInitialStatus status) st2)))
               | Unauthorized \<Rightarrow> restore_state last_state (emit UnauthorizedRestoring st1)
               | OtherFailure \<Rightarrow> restore_state last_state (emit ErrorRetrievingRestoring st1))
         else restore_state last_state (emit IdUnknownRestoring st0))"

text \<open>
  \<^verbatim>\<open>async_added_to_hass\<close> of the instance: the authenticated user's override calls the
  base method and then listens on the event bus; the contact class inherits the base
  method.
\<close>

definition async_added_to_hass :: "pyval option \<Rightarrow> fetch_outcome \<Rightarrow> entity \<Rightarrow> entity" where
  "async_added_to_hass last_state outcome st =
     (case sensor_class st of
        ZoomAuthenticatedUserBinarySensor \<Rightarrow>
          async_on_remove BusListen (base_async_added_to_hass last_state outcome st)
      | _ \<Rightarrow> base_async_added_to_hass last_state outcome st)"

subsection \<open>The event listener\<close>

text \<open>
  \<^verbatim>\<open>get_data_from_path\<close>: \<^verbatim>\<open>data.get(val, {})\<close> along the path, which raises
  \<^verbatim>\<open>AttributeError\<close> on a value that is not a dictionary; the result is the value
  reached when it is a string, else \<^verbatim>\<open>None\<close>.
\<close>

fun follow_path :: "pyval \<Rightarrow> string list \<Rightarrow> exn + pyval" where
  "follow_path d [] = Inr d"
| "follow_path (PDict kvs) (val # path) =
     follow_path (case map_of kvs val of Some v \<Rightarrow> v | None \<Rightarrow> PDict []) path"
| "follow_path d (val # path) = Inl AttributeError"

definition get_data_from_path :: "(string \<times> pyval) list \<Rightarrow> string list \<Rightarrow> exn + string option" where
  "get_data_from_path data path =
     (case follow_path (PDict data) path of
        Inl e \<Rightarrow> Inl e
      | Inr (PStr s) \<Rightarrow> Inr (Some s)
      | Inr _ \<Rightarrow> Inr None)"

text \<open>
  \<^verbatim>\<open>async_event_received\<close>. The result is the state afterwards and the exception that
  leaves the method, if any: \<^verbatim>\<open>KeyError\<close> from a subscript on the event data,
  \<^verbatim>\<open>AttributeError\<close> from \<^verbatim>\<open>.lower()\<close> on \<^verbatim>\<open>None\<close> or from the path lookup. The
  conjunction is evaluated left to right and stops at the first false operand. The first
  argument is \<^verbatim>\<open>str.lower\<close>.
\<close>

definition async_event_received ::
    "(string \<Rightarrow> string) \<Rightarrow> zoom_consts \<Rightarrow> (string \<times> pyval) list \<Rightarrow> entity
       \<Rightarrow> entity \<times> exn option" where
  "async_event_received lower K status st =
     (case map_of status ''ha_config_entry_id'' of
        None \<Rightarrow> (st, Some KeyError)
      | Some eid \<Rightarrow>
          if eid \<noteq> PStr (entry_id (config_entry st)) then (st, None)
          else
            (case map_of status (ATTR_EVENT K) of
               None \<Rightarrow> (st, Some KeyError)
             | Some ev \<Rightarrow>
                 if ev \<noteq> PStr (CONNECTIVITY_EVENT K) then (st, None)
                 else
                   (case get_data_from_path status (CONNECTIVITY_ID K) of
                      Inl e \<Rightarrow> (st, Some e)
                    | Inr None \<Rightarrow> (st, Some AttributeError)
                    | Inr (Some a) \<Rightarrow>
                        (case id_prop st of
                           None \<Rightarrow> (st, Some AttributeError)
                         | Some b \<Rightarrow>
                             if lower a \<noteq> lower b then (st, None)
                             else
                               (case get_data_from_path status (CONNECTIVITY_STATUS K) of
                                  Inl e \<Rightarrow> (st, Some e)
                                | Inr s \<Rightarrow> (async_write_ha_state (set_state s st), None))))))"

subsection \<open>Derived attributes\<close>

definition icon :: "entity \<Rightarrow> string" where
  "icon st = (if truthy (is_on st) then ''mdi:video'' else ''mdi:video-off'')"

text \<open>
  \<^verbatim>\<open>assumed_state\<close> is overridden by the authenticated user's class only; the other two
  classes inherit the entity base class's property, which is \<^verbatim>\<open>False\<close> unless set.
\<close>

definition assumed_state :: "entity \<Rightarrow> bool" where
  "assumed_state st =
     (case sensor_class st of
        ZoomAuthenticatedUserBinarySensor \<Rightarrow> \<not> available st
      | _ \<Rightarrow> False)"

text \<open>
  \<^verbatim>\<open>extra_state_attributes\<close>: the truthy ones of the five properties, in the order of
  the loop, then the status; \<^verbatim>\<open>None\<close> when the dictionary stays empty.
\<close>

definition attr_item :: "string \<Rightarrow> string option \<Rightarrow> (string \<times> string) list" where
  "attr_item prop val = (case val of Some v \<Rightarrow> (if v \<noteq> [] then [(prop, v)] else []) | None \<Rightarrow> [])"

definition extra_state_attributes :: "entity \<Rightarrow> (string \<times> string) list option" where
  "extra_state_attributes st =
     (let data = attr_item ''id'' (id_prop st) @ attr_item ''first_name'' (first_name st)
               @ attr_item ''last_name'' (last_name st) @ attr_item ''email'' (email st)
               @ attr_item ''account_id'' (account_id st)
               @ attr_item ''status'' (priv_zoom_event_state st)
      in if data \<noteq> [] then Some data else None)"

subsection \<open>Notions of the specification\<close>

text \<open>
  Edges of a sequence of poll outcomes (\<open>True\<close> for a fetch that returned), read
  against the availability before the first poll: a failure right after a success, and a
  success right after a failure.
\<close>

fun failure_edges :: "bool \<Rightarrow> bool list \<Rightarrow> nat" where
  "failure_edges prev [] = 0"
| "failure_edges prev (ok # oks) = (if prev \<and> \<not> ok then 1 else 0) + failure_edges ok oks"

fun recovery_edges :: "bool \<Rightarrow> bool list \<Rightarrow> nat" where
  "recovery_edges prev [] = 0"
| "recovery_edges prev (ok # oks) = (if \<not> prev \<and> ok then 1 else 0) + recovery_edges ok oks"

definition warnings_logged :: "entity \<Rightarrow> nat" where
  "warnings_logged st = length (filter (\<lambda>r. r = UnableToReach) (logged st))"

definition recoveries_logged :: "entity \<Rightarrow> nat" where
  "recoveries_logged st = length (filter (\<lambda>r. r = ReachableAgain) (logged st))"

text \<open>The id is resolvable at every poll of the run.\<close>

fun id_known_during :: "fetch_outcome list \<Rightarrow> entity \<Rightarrow> bool" where
  "id_known_during [] st = True"
| "id_known_during (outcome # rest) st =
     (id_known st \<and> id_known_during rest (async_update outcome st))"

text \<open>The fetched profile carries \<^verbatim>\<open>presence_status\<close>, as the API's profiles do.\<close>

fun has_presence_status :: "fetch_outcome \<Rightarrow> bool" where
  "has_presence_status (Fetched p) = (map_of p ''presence_status'' \<noteq> None)"
| "has_presence_status Unauthorized = True"
| "has_presence_status OtherFailure = True"

text \<open>The three match conditions of the event listener, each on its own.\<close>

definition entry_matches :: "(string \<times> pyval) list \<Rightarrow> entity \<Rightarrow> bool" where
  "entry_matches status st =
     (map_of status ''ha_config_entry_id'' = Some (PStr (entry_id (config_entry st))))"

definition type_matches :: "zoom_consts \<Rightarrow> (string \<times> pyval) list \<Rightarrow> bool" where
  "type_matches K status =
     (map_of status (ATTR_EVENT K) = Some (PStr (CONNECTIVITY_EVENT K)))"

definition identity_matches ::
    "(string \<Rightarrow> string) \<Rightarrow> zoom_consts \<Rightarrow> (string \<times> pyval) list \<Rightarrow> entity \<Rightarrow> bool" where
  "identity_matches lower K status st =
     (case (get_data_from_path status (CONNECTIVITY_ID K), id_prop st) of
        (Inr (Some a), Some b) \<Rightarrow> lower a = lower b
      | _ \<Rightarrow> False)"

subsection \<open>Concrete instances\<close>

text \<open>
  Values for the constants of \<^verbatim>\<open>const.py\<close>, a config entry with an explicit id, the
  entity \<^verbatim>\<open>__init__\<close> builds for it, and a webhook event as the event bus delivers it.
\<close>

definition example_consts :: zoom_consts where
  "example_consts =
     \<lparr> ATTR_EVENT = ''event'',
       CONNECTIVITY_EVENT = ''user.presence_status_updated'',
       CONNECTIVITY_ID = [''payload'', ''object'', ''id''],
       CONNECTIVITY_STATUS = [''payload'', ''object'', ''presence_status''] \<rparr>"

definition example_entry :: config_entry where
  "example_entry =
     \<lparr> entry_id = ''entry1'',
       data_id = Some ''AbC123'',
       connectivity_on_statuses = [''Available'', ''In Meeting''] \<rparr>"

definition example_entity :: entity where
  "example_entity = init ZoomAuthenticatedUserBinarySensor example_entry None"

definition example_event :: "string \<Rightarrow> string \<Rightarrow> string \<Rightarrow> (string \<times> pyval) list" where
  "example_event eid uid status =
     [(''ha_config_entry_id'', PStr eid),
      (''event'', PStr ''user.presence_status_updated''),
      (''payload'',
         PDict [(''object'', PDict [(''id'', PStr uid), (''presence_status'', PStr status)])])]"

text \<open>An entry without an explicit id, and one whose connected statuses hold the empty string.\<close>

definition anonymous_entry :: config_entry where
  "anonymous_entry = example_entry\<lparr>data_id := None\<rparr>"

definition blank_status_entry :: config_entry where
  "blank_status_entry = example_entry\<lparr>connectivity_on_statuses := ['''']\<rparr>"

text \<open>A run of six polls; the entity after one failed poll; an entity without any id.\<close>

definition example_run :: "fetch_outcome list" where
  "example_run =
     [OtherFailure, Unauthorized, OtherFailure, Fetched [(''presence_status'', ''Away'')],
      Fetched [(''presence_status'', ''Available'')], OtherFailure]"

definition unreachable_entity :: entity where
  "unreachable_entity = async_update OtherFailure example_entity"

definition anonymous_entity :: entity where
  "anonymous_entity = init ZoomAuthenticatedUserBinarySensor anonymous_entry None"

text \<open>The entity after a bootstrap whose fetch returned, and a later profile of the same user.\<close>

definition warmed_entity :: entity where
  "warmed_entity =
     async_added_to_hass None
       (Fetched [(''id'', ''AbC123''), (''first_name'', ''Ann''),
                 (''presence_status'', ''Available'')])
       example_entity"

definition steady_profile :: profile where
  "steady_profile =
     [(''id'', ''AbC123''), (''first_name'', ''Bob''), (''presence_status'', ''Away'')]"

text \<open>
  An authenticated user's entity without a configured id, its id coming from the
  coordinator's data and then from the profile fetched at bootstrap; and a later profile
  in which every attribute differs.
\<close>

definition first_profile :: profile where
  "first_profile =
     [(''id'', ''u1''), (''first_name'', ''Ann''), (''last_name'', ''Lee''),
      (''email'', ''ann@example.org''), (''account_id'', ''acc1''),
      (''presence_status'', ''Available'')]"

definition second_profile :: profile where
  "second_profile =
     [(''id'', ''u2''), (''first_name'', ''Bob''), (''last_name'', ''Ray''),
      (''email'', ''bob@example.org''), (''account_id'', ''acc2''),
      (''presence_status'', ''Away'')]"

definition profiled_entity :: entity where
  "profiled_entity =
     async_added_to_hass None (Fetched first_profile)
       (init ZoomAuthenticatedUserBinarySensor anonymous_entry (Some [(''id'', ''u1'')]))"

section \<open>Properties of the code\<close>

lemmas ex_defs = example_consts_def example_entry_def example_entity_def example_event_def
  anonymous_entry_def blank_status_entry_def init_def

lemmas run_defs = id_known_def id_prop_def async_update_def update_except_def Let_def
  emit_def async_write_ha_state_def set_state_def available_def

lemmas ev_defs = entry_matches_def type_matches_def identity_matches_def get_data_from_path_def
  id_prop_def

lemmas boot_defs = async_added_to_hass_def base_async_added_to_hass_def async_on_remove_def

subsection \<open>The status mapper\<close>

text \<open>
  Claim C1, as the code has it. After \<^verbatim>\<open>_set_state\<close> with raw status \<open>S\<close>,
  \<^verbatim>\<open>zoom_event_state\<close> is \<open>S\<close>. For a non-empty string \<open>S\<close>, \<^verbatim>\<open>is_on\<close> is the
  boolean "\<open>S\<close> is one of the connected statuses". In every case \<^verbatim>\<open>is_on\<close> is truthy
  exactly when \<open>S\<close> is a non-empty string among the connected statuses; so for \<open>S\<close>
  null or empty it is falsy whatever the connected statuses are.
\<close>

theorem set_state_truthiness:
  "zoom_event_state (set_state S st) = S \<and>
   is_on (set_state (Some (c # cs)) st) =
     PBool (c # cs \<in> set (connectivity_on_statuses (config_entry st))) \<and>
   truthy (is_on (set_state S st)) =
     (S \<noteq> Some [] \<and> py_in S (connectivity_on_statuses (config_entry st)))"
  by (cases S)
     (auto simp: set_state_def zoom_event_state_def is_on_def emit_def Let_def py_and_def)

text \<open>
  The empty string is a non-null status. With the empty string among the connected
  statuses, \<^verbatim>\<open>"" and "" in [""]\<close> is \<^verbatim>\<open>""\<close>: \<^verbatim>\<open>is_on\<close> is not the boolean
  "member of the connected statuses", which is true here.
\<close>

theorem set_state_blank_status_counterexample:
  "py_in (Some '''') (connectivity_on_statuses blank_status_entry) \<and>
   is_on (set_state (Some '''') (init ZoomAuthenticatedUserBinarySensor blank_status_entry None))
     \<noteq> PBool (py_in (Some '''') (connectivity_on_statuses blank_status_entry)) \<and>
   \<not> truthy
     (is_on (set_state (Some '''') (init ZoomAuthenticatedUserBinarySensor blank_status_entry None)))"
  by (simp add: ex_defs set_state_def is_on_def emit_def Let_def py_and_def)

text \<open>
  The scenario of the specification: connected statuses "Available" and "In Meeting";
  "In Meeting" switches on, "Away" switches off, no status is falsy.
\<close>

theorem set_state_truthiness_witness:
  "is_on (set_state (Some ''In Meeting'') example_entity) = PBool True \<and>
   is_on (set_state (Some ''Away'') example_entity) = PBool False \<and>
   \<not> truthy (is_on (set_state None example_entity))"
  using set_state_truthiness [of None example_entity "CHR ''I''" "''n Meeting''"]
        set_state_truthiness [of None example_entity "CHR ''A''" "''way''"]
  by (simp add: ex_defs)

subsection \<open>The poller\<close>

text \<open>
  One poll with a resolvable id and a profile that carries \<^verbatim>\<open>presence_status\<close>:
  availability afterwards is the outcome, and a record is written only on an edge.
\<close>

lemma async_update_step:
  assumes "id_known st" and "has_presence_status outcome"
  shows "available (async_update outcome st) = is_success outcome"
    and "warnings_logged (async_update outcome st) =
           warnings_logged st + (if available st \<and> \<not> is_success outcome then 1 else 0)"
    and "recoveries_logged (async_update outcome st) =
           recoveries_logged st + (if \<not> available st \<and> is_success outcome then 1 else 0)"
  using assms
  by (cases outcome;
      auto simp: async_update_def update_except_def available_def warnings_logged_def
        recoveries_logged_def async_write_ha_state_def emit_def set_state_def Let_def)+

text \<open>A failed poll of an unavailable entity changes nothing but the list of API calls.\<close>

lemma silent_failure:
  "\<not> available st \<Longrightarrow> \<not> is_success outcome \<Longrightarrow>
     async_update outcome st = st\<lparr>api_calls := api_calls (async_update outcome st)\<rparr>"
  by (cases outcome)
     (auto simp: async_update_def update_except_def available_def Let_def)

lemma polls_edges:
  "id_known_during outcomes st \<Longrightarrow> list_all has_presence_status outcomes \<Longrightarrow>
     warnings_logged (polls outcomes st) =
       warnings_logged st + failure_edges (available st) (map is_success outcomes) \<and>
     recoveries_logged (polls outcomes st) =
       recoveries_logged st + recovery_edges (available st) (map is_success outcomes)"
proof (induction outcomes arbitrary: st)
  case Nil
  then show ?case by simp
next
  case (Cons outcome rest)
  from Cons.prems have known: "id_known st" and ps: "has_presence_status outcome"
    and rest_known: "id_known_during rest (async_update outcome st)"
    and rest_ps: "list_all has_presence_status rest"
    by simp_all
  note step = async_update_step [OF known ps]
  from Cons.IH [OF rest_known rest_ps] show ?case
    by (auto simp add: step)
qed

text \<open>
  Claim C2. For every finite sequence of poll outcomes, with the id resolvable at each
  poll and each fetched profile carrying \<^verbatim>\<open>presence_status\<close>, the warnings written by
  the run are as many as the failure-after-success edges of the sequence, and the
  recovery records as many as its success-after-failure edges, counted against the
  availability before the run. A failed poll while unavailable writes no record and no
  state.
\<close>

theorem polls_edge_triggered:
  "(id_known_during outcomes st \<and> list_all has_presence_status outcomes \<longrightarrow>
     warnings_logged (polls outcomes st) =
       warnings_logged st + failure_edges (available st) (map is_success outcomes) \<and>
     recoveries_logged (polls outcomes st) =
       recoveries_logged st + recovery_edges (available st) (map is_success outcomes)) \<and>
   (\<not> available st \<and> \<not> is_success outcome \<longrightarrow>
      logged (async_update outcome st) = logged st \<and>
      ha_state_writes (async_update outcome st) = ha_state_writes st)"
proof (intro conjI impI)
  assume h: "id_known_during outcomes st \<and> list_all has_presence_status outcomes"
  then show "warnings_logged (polls outcomes st) =
       warnings_logged st + failure_edges (available st) (map is_success outcomes)"
    using polls_edges [of outcomes st] by simp
  from h show "recoveries_logged (polls outcomes st) =
       recoveries_logged st + recovery_edges (available st) (map is_success outcomes)"
    using polls_edges [of outcomes st] by simp
next
  assume h: "\<not> available st \<and> \<not> is_success outcome"
  then have eq:
    "async_update outcome st = st\<lparr>api_calls := api_calls (async_update outcome st)\<rparr>"
    using silent_failure [of st outcome] by simp
  show "logged (async_update outcome st) = logged st"
    by (subst eq) simp
  show "ha_state_writes (async_update outcome st) = ha_state_writes st"
    by (subst eq) simp
qed

text \<open>
  Three failures, two successes and a failure, from a fresh entity: four failures but
  two warnings, two successes but one recovery record; the second failure in a row adds
  no record.
\<close>

theorem polls_edge_triggered_witness:
  "id_known_during example_run example_entity \<and> list_all has_presence_status example_run \<and>
   warnings_logged (polls example_run example_entity) = 2 \<and>
   recoveries_logged (polls example_run example_entity) = 1 \<and>
   \<not> available (async_update OtherFailure example_entity) \<and>
   logged (async_update OtherFailure (async_update OtherFailure example_entity)) =
     logged (async_update OtherFailure example_entity)"
proof -
  have a: "id_known_during example_run example_entity"
    by (simp add: example_run_def ex_defs run_defs)
  have b: "list_all has_presence_status example_run"
    by (simp add: example_run_def)
  have c: "\<not> available (async_update OtherFailure example_entity)"
    by (simp add: ex_defs run_defs)
  have d: "warnings_logged example_entity = 0" "recoveries_logged example_entity = 0"
    "available example_entity"
    by (simp_all add: ex_defs warnings_logged_def recoveries_logged_def available_def)
  have e: "failure_edges True (map is_success example_run) = 2"
     "recovery_edges True (map is_success example_run) = 1"
    by (simp_all add: example_run_def)
  from polls_edge_triggered [of example_run example_entity OtherFailure] a b d e
  have "warnings_logged (polls example_run example_entity) = 2"
    "recoveries_logged (polls example_run example_entity) = 1"
    by simp_all
  moreover
  from polls_edge_triggered [of "[]" "async_update OtherFailure example_entity" OtherFailure] c
  have "logged (async_update OtherFailure (async_update OtherFailure example_entity)) =
     logged (async_update OtherFailure example_entity)"
    by simp
  ultimately show ?thesis using a b c by simp
qed

subsection \<open>The event listener\<close>

lemma event_noop:
  "\<not> entry_matches status st \<or> \<not> type_matches K status
     \<or> \<not> identity_matches lower K status st
    \<Longrightarrow> fst (async_event_received lower K status st) = st"
  by (auto simp: async_event_received_def entry_matches_def type_matches_def
        identity_matches_def split: option.splits sum.splits)

text \<open>
  Claim C3. For every event whose \<^verbatim>\<open>ha_config_entry_id\<close> is not the entity's entry id,
  or whose event type is not the connectivity event, or whose nested id does not equal
  the entity's id after lower-casing both (whatever function \<^verbatim>\<open>str.lower\<close> is), the
  entity after \<^verbatim>\<open>async_event_received\<close> is the entity before: \<^verbatim>\<open>zoom_event_state\<close>,
  \<^verbatim>\<open>is_on\<close>, \<^verbatim>\<open>available\<close>, the profile, the log and the count of state writes are all
  unchanged.
\<close>

theorem event_mismatch_noop:
  "\<not> entry_matches status st \<or> \<not> type_matches K status
     \<or> \<not> identity_matches lower K status st
    \<Longrightarrow> fst (async_event_received lower K status st) = st"
  by (rule event_noop)

lemma ascii_lower_examples:
  "ascii_lower ''AbC123'' = ''abc123''" "ascii_lower ''abc124'' = ''abc124''"
  "ascii_lower ''ABC123'' = ''abc123''"
  by code_simp+

text \<open>
  An event of the entity's own config entry and of the connectivity type, for user
  "abc124" while the entity's id is "AbC123": the ids differ after lower-casing, and the
  entity is left as it was. So is it by an event for the same user from another entry.
\<close>

theorem event_mismatch_noop_witness:
  "entry_matches (example_event ''entry1'' ''abc124'' ''Away'') example_entity \<and>
   type_matches example_consts (example_event ''entry1'' ''abc124'' ''Away'') \<and>
   \<not> identity_matches ascii_lower example_consts (example_event ''entry1'' ''abc124'' ''Away'')
        example_entity \<and>
   fst (async_event_received ascii_lower example_consts
          (example_event ''entry1'' ''abc124'' ''Away'') example_entity) = example_entity \<and>
   \<not> entry_matches (example_event ''entry2'' ''abc123'' ''Away'') example_entity \<and>
   fst (async_event_received ascii_lower example_consts
          (example_event ''entry2'' ''abc123'' ''Away'') example_entity) = example_entity"
proof -
  let ?ev = "example_event ''entry1'' ''abc124'' ''Away''"
  have a: "entry_matches ?ev example_entity" by (simp add: ex_defs ev_defs)
  have b: "type_matches example_consts ?ev" by (simp add: ex_defs ev_defs)
  have c: "\<not> identity_matches ascii_lower example_consts ?ev example_entity"
    by (simp add: ex_defs ev_defs profile_def ascii_lower_examples)
  have d: "\<not> entry_matches (example_event ''entry2'' ''abc123'' ''Away'') example_entity"
    by (simp add: ex_defs ev_defs)
  from event_mismatch_noop [of ?ev example_entity example_consts ascii_lower] c
  have "fst (async_event_received ascii_lower example_consts ?ev example_entity)
          = example_entity"
    by simp
  moreover
  from event_mismatch_noop
         [of "example_event ''entry2'' ''abc123'' ''Away''" example_entity example_consts
             ascii_lower] d
  have "fst (async_event_received ascii_lower example_consts
          (example_event ''entry2'' ''abc123'' ''Away'') example_entity) = example_entity"
    by simp
  ultimately show ?thesis using a b c d by simp
qed

lemma event_available:
  "available (fst (async_event_received lower K status st)) = available st"
  by (auto simp: async_event_received_def available_def async_write_ha_state_def
        set_state_def emit_def Let_def split: option.splits sum.splits)

lemma event_match:
  assumes "entry_matches status st" "type_matches K status"
    and "identity_matches lower K status st"
    and "get_data_from_path status (CONNECTIVITY_STATUS K) = Inr s"
  shows "async_event_received lower K status st
           = (async_write_ha_state (set_state s st), None)"
  using assms
  by (auto simp: async_event_received_def entry_matches_def type_matches_def
        identity_matches_def split: option.splits sum.splits)

text \<open>
  Claim C4. No event changes \<^verbatim>\<open>available\<close>. For every event whose entry id, event type
  and nested id (after lower-casing, whatever function \<^verbatim>\<open>str.lower\<close> is) match, and
  whose nested status field reads as \<open>s\<close> (a string, or \<^verbatim>\<open>None\<close> when there is none),
  \<^verbatim>\<open>zoom_event_state\<close> is \<open>s\<close> afterwards, whatever \<^verbatim>\<open>available\<close> is, one state write
  is made and nothing is raised.
\<close>

theorem event_match_overwrites:
  "available (fst (async_event_received lower K status st)) = available st \<and>
   (entry_matches status st \<and> type_matches K status \<and> identity_matches lower K status st \<and>
    get_data_from_path status (CONNECTIVITY_STATUS K) = Inr s \<longrightarrow>
      zoom_event_state (fst (async_event_received lower K status st)) = s \<and>
      ha_state_writes (fst (async_event_received lower K status st))
        = Suc (ha_state_writes st) \<and>
      snd (async_event_received lower K status st) = None)"
  using event_available [of lower K status st] event_match [of status st K lower s]
  by (auto simp: zoom_event_state_def async_write_ha_state_def set_state_def emit_def Let_def)

text \<open>A matching event, its id in another case, received while unavailable.\<close>

theorem event_match_overwrites_witness:
  "entry_matches (example_event ''entry1'' ''ABC123'' ''In Meeting'')
     (example_entity\<lparr>attr_available := False\<rparr>) \<and>
   type_matches example_consts (example_event ''entry1'' ''ABC123'' ''In Meeting'') \<and>
   identity_matches ascii_lower example_consts
     (example_event ''entry1'' ''ABC123'' ''In Meeting'')
     (example_entity\<lparr>attr_available := False\<rparr>) \<and>
   zoom_event_state (fst (async_event_received ascii_lower example_consts
      (example_event ''entry1'' ''ABC123'' ''In Meeting'')
      (example_entity\<lparr>attr_available := False\<rparr>))) = Some ''In Meeting'' \<and>
   \<not> available (fst (async_event_received ascii_lower example_consts
      (example_event ''entry1'' ''ABC123'' ''In Meeting'')
      (example_entity\<lparr>attr_available := False\<rparr>)))"
proof -
  let ?ev = "example_event ''entry1'' ''ABC123'' ''In Meeting''"
  let ?st = "example_entity\<lparr>attr_available := False\<rparr>"
  have a: "entry_matches ?ev ?st" by (simp add: ex_defs ev_defs)
  have b: "type_matches example_consts ?ev" by (simp add: ex_defs ev_defs)
  have c: "identity_matches ascii_lower example_consts ?ev ?st"
    by (simp add: ex_defs ev_defs profile_def ascii_lower_examples)
  have d: "get_data_from_path ?ev (CONNECTIVITY_STATUS example_consts) = Inr (Some ''In Meeting'')"
    by (simp add: ex_defs ev_defs)
  have e: "\<not> available ?st" by (simp add: available_def)
  from event_match_overwrites [of ascii_lower example_consts ?ev ?st "Some ''In Meeting''"]
    a b c d e
  show ?thesis by simp
qed

subsection \<open>Recovery and steady state of the poller\<close>

text \<open>
  Claim C5. For every poll that is made (the id is resolvable) while \<^verbatim>\<open>available\<close> is
  false and whose fetch returns a profile with \<^verbatim>\<open>presence_status\<close>: afterwards
  \<^verbatim>\<open>available\<close> is true, \<^verbatim>\<open>zoom_event_state\<close> is that \<^verbatim>\<open>presence_status\<close>, one recovery
  record more is in the log and one state write more was made.
\<close>

theorem recovery_poll:
  "id_known st \<Longrightarrow> \<not> available st \<Longrightarrow> map_of p ''presence_status'' = Some status \<Longrightarrow>
   available (async_update (Fetched p) st) \<and>
   zoom_event_state (async_update (Fetched p) st) = Some status \<and>
   recoveries_logged (async_update (Fetched p) st) = Suc (recoveries_logged st) \<and>
   ha_state_writes (async_update (Fetched p) st) = Suc (ha_state_writes st)"
  by (simp add: async_update_def available_def zoom_event_state_def recoveries_logged_def
        async_write_ha_state_def emit_def set_state_def Let_def)

text \<open>The entity after one failed poll, then a fetch that returns status "Away".\<close>

theorem recovery_poll_witness:
  "id_known unreachable_entity \<and> \<not> available unreachable_entity \<and>
   available (async_update (Fetched [(''id'', ''AbC123''), (''presence_status'', ''Away'')])
     unreachable_entity) \<and>
   zoom_event_state (async_update (Fetched [(''id'', ''AbC123''), (''presence_status'', ''Away'')])
     unreachable_entity) = Some ''Away'' \<and>
   recoveries_logged (async_update (Fetched [(''id'', ''AbC123''), (''presence_status'', ''Away'')])
     unreachable_entity) = 1 \<and>
   ha_state_writes (async_update (Fetched [(''id'', ''AbC123''), (''presence_status'', ''Away'')])
     unreachable_entity) = 2"
proof -
  let ?p = "[(''id'', ''AbC123''), (''presence_status'', ''Away'')]"
  have a: "id_known unreachable_entity"
    by (simp add: unreachable_entity_def ex_defs run_defs profile_def)
  have b: "\<not> available unreachable_entity"
    by (simp add: unreachable_entity_def ex_defs run_defs)
  have c: "map_of ?p ''presence_status'' = Some ''Away''" by simp
  have d: "recoveries_logged unreachable_entity = 0" "ha_state_writes unreachable_entity = 1"
    by (simp_all add: unreachable_entity_def ex_defs run_defs recoveries_logged_def)
  from recovery_poll [OF a b c] a b d show ?thesis by simp
qed

lemma warmed_entity_fields:
  "available warmed_entity" "id_known warmed_entity"
  "zoom_event_state warmed_entity = Some ''Available''"
  "is_on warmed_entity = PBool True"
  "first_name warmed_entity = Some ''Ann''"
  "ha_state_writes warmed_entity = 1"
  by (simp_all add: warmed_entity_def boot_defs ex_defs run_defs profile_def py_and_def
        zoom_event_state_def is_on_def first_name_def)

text \<open>
  Claim C6. For every poll whose fetch returns while \<^verbatim>\<open>available\<close> is already true,
  \<^verbatim>\<open>zoom_event_state\<close> and \<^verbatim>\<open>is_on\<close> are unchanged, no state write is made and no
  record is logged: the fetched \<^verbatim>\<open>presence_status\<close> does not reach the status mapper.
\<close>

theorem steady_poll_keeps_state:
  "available st \<Longrightarrow>
   zoom_event_state (async_update (Fetched p) st) = zoom_event_state st \<and>
   is_on (async_update (Fetched p) st) = is_on st \<and>
   ha_state_writes (async_update (Fetched p) st) = ha_state_writes st \<and>
   logged (async_update (Fetched p) st) = logged st"
  by (simp add: async_update_def available_def zoom_event_state_def is_on_def Let_def)

text \<open>The user is "Available" and on; a poll that fetches status "Away" leaves that so.\<close>

theorem steady_poll_keeps_state_witness:
  "available warmed_entity \<and>
   zoom_event_state (async_update (Fetched steady_profile) warmed_entity) = Some ''Available'' \<and>
   is_on (async_update (Fetched steady_profile) warmed_entity) = PBool True \<and>
   ha_state_writes (async_update (Fetched steady_profile) warmed_entity) = 1"
  using steady_poll_keeps_state [of warmed_entity steady_profile] warmed_entity_fields by simp

subsection \<open>Bootstrap and restore\<close>

text \<open>
  Claim C7. For every bootstrap of an entity whose id is unresolved (\<^verbatim>\<open>self.id\<close> is
  falsy), whatever the API would answer, the API is not called and \<^verbatim>\<open>is_on\<close> is what
  \<^verbatim>\<open>_restore_state\<close> gives from the persisted state; \<^verbatim>\<open>zoom_event_state\<close>,
  \<^verbatim>\<open>available\<close> and the count of state writes stay as they were.
\<close>

theorem bootstrap_unresolved_id:
  "\<not> id_known st \<Longrightarrow>
   api_calls (async_added_to_hass last_state outcome st) = api_calls st \<and>
   is_on (async_added_to_hass last_state outcome st) = is_on (restore_state last_state st) \<and>
   zoom_event_state (async_added_to_hass last_state outcome st) = zoom_event_state st \<and>
   available (async_added_to_hass last_state outcome st) = available st \<and>
   ha_state_writes (async_added_to_hass last_state outcome st) = ha_state_writes st"
  by (cases last_state; cases "sensor_class st")
     (simp_all add: boot_defs id_known_def id_prop_def profile_def emit_def is_on_def
        zoom_event_state_def available_def)

text \<open>No configured id, no coordinator data, persisted state \<^verbatim>\<open>True\<close>.\<close>

theorem bootstrap_unresolved_id_witness:
  "\<not> id_known anonymous_entity \<and>
   api_calls (async_added_to_hass (Some (PBool True)) (Fetched steady_profile) anonymous_entity)
     = [] \<and>
   is_on (async_added_to_hass (Some (PBool True)) (Fetched steady_profile) anonymous_entity)
     = PBool True"
proof -
  have a: "\<not> id_known anonymous_entity"
    by (simp add: anonymous_entity_def ex_defs id_known_def id_prop_def profile_def)
  from bootstrap_unresolved_id [OF a, of "Some (PBool True)" "Fetched steady_profile"] a
  show ?thesis
    by (simp add: anonymous_entity_def init_def is_on_def)
qed

lemma bootstrap_unauthorized:
  "id_known st \<Longrightarrow>
   available (async_added_to_hass last_state Unauthorized st) = available st \<and>
   is_on (async_added_to_hass last_state Unauthorized st) = is_on (restore_state last_state st) \<and>
   zoom_event_state (async_added_to_hass last_state Unauthorized st) = zoom_event_state st \<and>
   api_calls (async_added_to_hass last_state Unauthorized st) = api_calls st @ [the (id_prop st)]"
  by (cases last_state; cases "sensor_class st")
     (simp_all add: boot_defs id_known_def id_prop_def profile_def emit_def is_on_def
        zoom_event_state_def available_def)

lemma init_available: "available (init cls entry coord)"
  by (simp add: init_def available_def)

text \<open>
  Claim C8. For every bootstrap whose one fetch raises \<^verbatim>\<open>HTTPUnauthorized\<close> (the id is
  resolvable, the API is called once), \<^verbatim>\<open>is_on\<close> is what \<^verbatim>\<open>_restore_state\<close> gives
  from the persisted state and \<^verbatim>\<open>available\<close> is unchanged; on the entity that
  \<^verbatim>\<open>__init__\<close> builds it therefore stays true.
\<close>

theorem bootstrap_unauthorized_restores:
  "id_known st \<Longrightarrow>
   available (async_added_to_hass last_state Unauthorized st) = available st \<and>
   is_on (async_added_to_hass last_state Unauthorized st) = is_on (restore_state last_state st) \<and>
   zoom_event_state (async_added_to_hass last_state Unauthorized st) = zoom_event_state st \<and>
   api_calls (async_added_to_hass last_state Unauthorized st) = api_calls st @ [the (id_prop st)] \<and>
   (st = init cls entry coord \<longrightarrow> available (async_added_to_hass last_state Unauthorized st))"
  using bootstrap_unauthorized [of st last_state] init_available [of cls entry coord]
  by auto

text \<open>The fresh entity with a configured id, persisted state \<^verbatim>\<open>True\<close>.\<close>

theorem bootstrap_unauthorized_restores_witness:
  "id_known example_entity \<and>
   available (async_added_to_hass (Some (PBool True)) Unauthorized example_entity) \<and>
   is_on (async_added_to_hass (Some (PBool True)) Unauthorized example_entity) = PBool True \<and>
   api_calls (async_added_to_hass (Some (PBool True)) Unauthorized example_entity) = [''AbC123'']"
proof -
  have a: "id_known example_entity"
    by (simp add: ex_defs id_known_def id_prop_def)
  have b: "example_entity = init ZoomAuthenticatedUserBinarySensor example_entry None"
    by (simp add: example_entity_def)
  have c: "is_on (restore_state (Some (PBool True)) example_entity) = PBool True"
    by (simp add: is_on_def)
  have d: "api_calls example_entity @ [the (id_prop example_entity)] = [''AbC123'']"
    by (simp add: ex_defs id_prop_def)
  note t = bootstrap_unauthorized_restores
             [OF a, of "Some (PBool True)" ZoomAuthenticatedUserBinarySensor example_entry None]
  from t b have "available (async_added_to_hass (Some (PBool True)) Unauthorized example_entity)"
    by blast
  moreover from t c
  have "is_on (async_added_to_hass (Some (PBool True)) Unauthorized example_entity) = PBool True"
    by simp
  moreover from t d
  have "api_calls (async_added_to_hass (Some (PBool True)) Unauthorized example_entity)
          = [''AbC123'']"
    by simp
  ultimately show ?thesis using a by blast
qed

text \<open>
  Claim C9 says that after a \<^verbatim>\<open>_restore_state\<close> that finds a persisted state,
  \<^verbatim>\<open>is_on\<close> is the persisted boolean state, a boolean, and \<^verbatim>\<open>zoom_event_state\<close> is
  untouched. The code assigns the attribute \<^verbatim>\<open>state\<close> of the restored object as it
  is, and that attribute is the string "on" or "off". Restoring an entity that was off
  leaves \<^verbatim>\<open>is_on\<close> the non-empty string "off": not a boolean, not false, and truthy, so
  the icon is the one of a sensor that is on. \<^verbatim>\<open>zoom_event_state\<close> and the log are
  untouched, as the claim says.
\<close>

theorem restore_state_off_is_truthy:
  "is_on (restore_state (Some (PStr ''off'')) example_entity) = PStr ''off'' \<and>
   is_on (restore_state (Some (PStr ''off'')) example_entity) \<noteq> PBool False \<and>
   truthy (is_on (restore_state (Some (PStr ''off'')) example_entity)) \<and>
   icon (restore_state (Some (PStr ''off'')) example_entity) = ''mdi:video'' \<and>
   zoom_event_state (restore_state (Some (PStr ''off'')) example_entity)
     = zoom_event_state example_entity \<and>
   logged (restore_state (Some (PStr ''off'')) example_entity) = logged example_entity"
  by (simp add: is_on_def icon_def zoom_event_state_def)

subsection \<open>The profile on a steady poll\<close>

lemma profiled_entity_eq:
  "profiled_entity =
     \<lparr> sensor_class = ZoomAuthenticatedUserBinarySensor,
       config_entry = anonymous_entry,
       coordinator_data = Some [(''id'', ''u1'')],
       priv_profile = Some first_profile,
       priv_zoom_event_state = Some ''Available'',
       priv_is_on = PBool True,
       attr_available = True,
       logged = [RetrievedInitialStatus ''Available'',
                 SetStateTo (Some ''Available'') (PBool True)],
       ha_state_writes = 1,
       api_calls = [''u1''],
       on_remove = [UpdateListener, DispatcherConnect, CoordinatorListener, TimeInterval,
                    BusListen] \<rparr>"
  by (simp add: profiled_entity_def first_profile_def boot_defs ex_defs run_defs profile_def
        py_and_def)

lemma profiled_entity_fields:
  "id_known profiled_entity" "available profiled_entity"
  "zoom_event_state profiled_entity = Some ''Available''"
  "is_on profiled_entity = PBool True"
  "id_prop profiled_entity = Some ''u1''"
  "first_name profiled_entity = Some ''Ann''"
  "last_name profiled_entity = Some ''Lee''"
  "email profiled_entity = Some ''ann@example.org''"
  "account_id profiled_entity = Some ''acc1''"
  "sensor_class profiled_entity = ZoomAuthenticatedUserBinarySensor"
  "data_id (config_entry profiled_entity) = None"
  by (simp_all add: profiled_entity_eq first_profile_def id_known_def id_prop_def profile_def
        available_def zoom_event_state_def is_on_def first_name_def last_name_def email_def
        account_id_def anonymous_entry_def example_entry_def)

lemma profiled_entity_attributes:
  "extra_state_attributes profiled_entity =
     Some [(''id'', ''u1''), (''first_name'', ''Ann''), (''last_name'', ''Lee''),
           (''email'', ''ann@example.org''), (''account_id'', ''acc1''),
           (''status'', ''Available'')]"
  by (simp add: extra_state_attributes_def attr_item_def profiled_entity_fields Let_def)
     (simp add: profiled_entity_eq)


lemma async_update_frame:
  "sensor_class (async_update outcome st) = sensor_class st"
  "config_entry (async_update outcome st) = config_entry st"
  "coordinator_data (async_update outcome st) = coordinator_data st"
  by (cases outcome;
      simp add: async_update_def update_except_def Let_def emit_def async_write_ha_state_def
         set_state_def split: option.splits)+

lemma async_update_profile:
  "id_known st \<Longrightarrow> priv_profile (async_update (Fetched p) st) = Some p"
  by (simp add: async_update_def update_except_def Let_def emit_def async_write_ha_state_def
         set_state_def split: option.splits)

lemma api_calls_irrelevant:
  "profile (st\<lparr>api_calls := x\<rparr>) = profile st"
  "id_prop (st\<lparr>api_calls := x\<rparr>) = id_prop st"
  "extra_state_attributes (st\<lparr>api_calls := x\<rparr>) = extra_state_attributes st"
  by (cases "sensor_class st";
      simp add: extra_state_attributes_def id_prop_def first_name_def last_name_def
        email_def account_id_def profile_def)+

lemma profile_after:
  "id_known st \<Longrightarrow> p \<noteq> [] \<Longrightarrow> profile (async_update (Fetched p) st) = p"
  by (simp add: profile_def async_update_frame async_update_profile split: sensor_class.splits)

lemma derived_after:
  assumes "id_known st" and "p \<noteq> []"
  shows "first_name (async_update (Fetched p) st) = map_of p ''first_name''"
    and "last_name (async_update (Fetched p) st) = map_of p ''last_name''"
    and "email (async_update (Fetched p) st) = map_of p ''email''"
    and "account_id (async_update (Fetched p) st) = map_of p ''account_id''"
    and "id_prop (async_update (Fetched p) st) =
        (case sensor_class st of
           ZoomContactUserBinarySensor i \<Rightarrow> Some i
         | _ \<Rightarrow> str_or (data_id (config_entry st)) (map_of p ''id''))"
proof -
  note pa = profile_after [OF assms]
  show "first_name (async_update (Fetched p) st) = map_of p ''first_name''"
    by (simp add: first_name_def pa)
  show "last_name (async_update (Fetched p) st) = map_of p ''last_name''"
    by (simp add: last_name_def pa)
  show "email (async_update (Fetched p) st) = map_of p ''email''"
    by (simp add: email_def pa)
  show "account_id (async_update (Fetched p) st) = map_of p ''account_id''"
    by (simp add: account_id_def pa)
  show "id_prop (async_update (Fetched p) st) =
        (case sensor_class st of
           ZoomContactUserBinarySensor i \<Rightarrow> Some i
         | _ \<Rightarrow> str_or (data_id (config_entry st)) (map_of p ''id''))"
    by (cases "sensor_class st") (simp_all add: id_prop_def pa async_update_frame)
qed

lemma attributes_after:
  assumes "id_known st" and "p \<noteq> []"
  shows "extra_state_attributes (async_update (Fetched p) st) =
        (let data =
           attr_item ''id''
             (case sensor_class st of
                ZoomContactUserBinarySensor i \<Rightarrow> Some i
              | _ \<Rightarrow> str_or (data_id (config_entry st)) (map_of p ''id''))
           @ attr_item ''first_name'' (map_of p ''first_name'')
           @ attr_item ''last_name'' (map_of p ''last_name'')
           @ attr_item ''email'' (map_of p ''email'')
           @ attr_item ''account_id'' (map_of p ''account_id'')
           @ attr_item ''status'' (zoom_event_state (async_update (Fetched p) st))
         in if data \<noteq> [] then Some data else None)"
  unfolding extra_state_attributes_def derived_after [OF assms] zoom_event_state_def
  by (rule refl)

lemma steady_poll_eq:
  "id_known st \<Longrightarrow> available st \<Longrightarrow>
   async_update (Fetched p) st =
     st\<lparr>priv_profile := Some p, api_calls := api_calls st @ [the (id_prop st)]\<rparr>"
  by (simp add: async_update_def available_def Let_def)

lemma second_profile_fields:
  "second_profile \<noteq> []"
  "map_of second_profile ''id'' = Some ''u2''"
  "map_of second_profile ''first_name'' = Some ''Bob''"
  "map_of second_profile ''last_name'' = Some ''Ray''"
  "map_of second_profile ''email'' = Some ''bob@example.org''"
  "map_of second_profile ''account_id'' = Some ''acc2''"
  by (simp_all add: second_profile_def)

lemma profiled_entity_changes:
  "id_known profiled_entity \<and> available profiled_entity \<and>
   zoom_event_state (async_update (Fetched second_profile) profiled_entity)
     = zoom_event_state profiled_entity \<and>
   is_on (async_update (Fetched second_profile) profiled_entity) = is_on profiled_entity \<and>
   id_prop (async_update (Fetched second_profile) profiled_entity) \<noteq> id_prop profiled_entity \<and>
   first_name (async_update (Fetched second_profile) profiled_entity)
     \<noteq> first_name profiled_entity \<and>
   last_name (async_update (Fetched second_profile) profiled_entity)
     \<noteq> last_name profiled_entity \<and>
   email (async_update (Fetched second_profile) profiled_entity) \<noteq> email profiled_entity \<and>
   account_id (async_update (Fetched second_profile) profiled_entity)
     \<noteq> account_id profiled_entity \<and>
   extra_state_attributes (async_update (Fetched second_profile) profiled_entity)
     \<noteq> extra_state_attributes profiled_entity"
proof -
  note k = profiled_entity_fields(1) and ne = second_profile_fields(1)
  note eq = steady_poll_eq [OF k profiled_entity_fields(2), of second_profile]
  have z: "zoom_event_state (async_update (Fetched second_profile) profiled_entity)
             = zoom_event_state profiled_entity"
    by (simp add: eq zoom_event_state_def)
  have o: "is_on (async_update (Fetched second_profile) profiled_entity) = is_on profiled_entity"
    by (simp add: eq is_on_def)
  have x: "extra_state_attributes (async_update (Fetched second_profile) profiled_entity) =
     Some [(''id'', ''u2''), (''first_name'', ''Bob''), (''last_name'', ''Ray''),
           (''email'', ''bob@example.org''), (''account_id'', ''acc2''),
           (''status'', ''Available'')]"
    by (simp add: attributes_after [OF k ne] z profiled_entity_fields second_profile_fields
          attr_item_def Let_def)
  show ?thesis
    by (simp add: z o x derived_after [OF k ne] profiled_entity_fields second_profile_fields
          profiled_entity_attributes)
qed

text \<open>
  Claim C10. For every poll that is made and whose fetch returns profile \<open>p\<close>,
  \<^verbatim>\<open>_profile\<close> is \<open>p\<close> afterwards, also when \<^verbatim>\<open>available\<close> was already true; then
  \<^verbatim>\<open>zoom_event_state\<close> and \<^verbatim>\<open>is_on\<close> stay while \<^verbatim>\<open>extra_state_attributes\<close> is computed
  as if only the profile had been replaced. For a non-empty \<open>p\<close> the properties
  \<^verbatim>\<open>first_name\<close>, \<^verbatim>\<open>last_name\<close>, \<^verbatim>\<open>email\<close>, \<^verbatim>\<open>account_id\<close> are read from \<open>p\<close>,
  \<^verbatim>\<open>id\<close> is the configured id or else the id of \<open>p\<close> (the contact's own id for a
  contact), and \<^verbatim>\<open>extra_state_attributes\<close> is built from these values of \<open>p\<close> and the
  Zoom state. They do change: there is an available entity and a fetched profile for
  which \<^verbatim>\<open>id\<close>, \<^verbatim>\<open>first_name\<close>, \<^verbatim>\<open>last_name\<close>, \<^verbatim>\<open>email\<close>, \<^verbatim>\<open>account_id\<close> and
  \<^verbatim>\<open>extra_state_attributes\<close> all differ after the poll while \<^verbatim>\<open>zoom_event_state\<close> and
  \<^verbatim>\<open>is_on\<close> are the same.
\<close>

theorem steady_poll_replaces_profile:
  "id_known st \<Longrightarrow>
   priv_profile (async_update (Fetched p) st) = Some p \<and>
   (available st \<longrightarrow>
      zoom_event_state (async_update (Fetched p) st) = zoom_event_state st \<and>
      is_on (async_update (Fetched p) st) = is_on st \<and>
      extra_state_attributes (async_update (Fetched p) st) =
        extra_state_attributes (st\<lparr>priv_profile := Some p\<rparr>)) \<and>
   (p \<noteq> [] \<longrightarrow>
      first_name (async_update (Fetched p) st) = map_of p ''first_name'' \<and>
      last_name (async_update (Fetched p) st) = map_of p ''last_name'' \<and>
      email (async_update (Fetched p) st) = map_of p ''email'' \<and>
      account_id (async_update (Fetched p) st) = map_of p ''account_id'' \<and>
      id_prop (async_update (Fetched p) st) =
        (case sensor_class st of
           ZoomContactUserBinarySensor i \<Rightarrow> Some i
         | _ \<Rightarrow> str_or (data_id (config_entry st)) (map_of p ''id'')) \<and>
      extra_state_attributes (async_update (Fetched p) st) =
        (let data =
           attr_item ''id''
             (case sensor_class st of
                ZoomContactUserBinarySensor i \<Rightarrow> Some i
              | _ \<Rightarrow> str_or (data_id (config_entry st)) (map_of p ''id''))
           @ attr_item ''first_name'' (map_of p ''first_name'')
           @ attr_item ''last_name'' (map_of p ''last_name'')
           @ attr_item ''email'' (map_of p ''email'')
           @ attr_item ''account_id'' (map_of p ''account_id'')
           @ attr_item ''status'' (zoom_event_state (async_update (Fetched p) st))
         in if data \<noteq> [] then Some data else None)) \<and>
   (\<exists>e q. id_known e \<and> available e \<and>
      zoom_event_state (async_update (Fetched q) e) = zoom_event_state e \<and>
      is_on (async_update (Fetched q) e) = is_on e \<and>
      id_prop (async_update (Fetched q) e) \<noteq> id_prop e \<and>
      first_name (async_update (Fetched q) e) \<noteq> first_name e \<and>
      last_name (async_update (Fetched q) e) \<noteq> last_name e \<and>
      email (async_update (Fetched q) e) \<noteq> email e \<and>
      account_id (async_update (Fetched q) e) \<noteq> account_id e \<and>
      extra_state_attributes (async_update (Fetched q) e) \<noteq> extra_state_attributes e)"
proof (intro conjI impI)
  assume known: "id_known st"
  show "priv_profile (async_update (Fetched p) st) = Some p"
    by (rule async_update_profile [OF known])
  {
    assume av: "available st"
    note eq = steady_poll_eq [OF known av, of p]
    show "zoom_event_state (async_update (Fetched p) st) = zoom_event_state st"
      by (simp add: eq zoom_event_state_def)
    show "is_on (async_update (Fetched p) st) = is_on st"
      by (simp add: eq is_on_def)
    show "extra_state_attributes (async_update (Fetched p) st) =
        extra_state_attributes (st\<lparr>priv_profile := Some p\<rparr>)"
      by (simp only: eq api_calls_irrelevant)
  }
  {
    assume ne: "p \<noteq> []"
    show "first_name (async_update (Fetched p) st) = map_of p ''first_name''"
      by (rule derived_after [OF known ne])
    show "last_name (async_update (Fetched p) st) = map_of p ''last_name''"
      by (rule derived_after [OF known ne])
    show "email (async_update (Fetched p) st) = map_of p ''email''"
      by (rule derived_after [OF known ne])
    show "account_id (async_update (Fetched p) st) = map_of p ''account_id''"
      by (rule derived_after [OF known ne])
    show "id_prop (async_update (Fetched p) st) =
        (case sensor_class st of
           ZoomContactUserBinarySensor i \<Rightarrow> Some i
         | _ \<Rightarrow> str_or (data_id (config_entry st)) (map_of p ''id''))"
      by (rule derived_after [OF known ne])
    show "extra_state_attributes (async_update (Fetched p) st) =
        (let data =
           attr_item ''id''
             (case sensor_class st of
                ZoomContactUserBinarySensor i \<Rightarrow> Some i
              | _ \<Rightarrow> str_or (data_id (config_entry st)) (map_of p ''id''))
           @ attr_item ''first_name'' (map_of p ''first_name'')
           @ attr_item ''last_name'' (map_of p ''last_name'')
           @ attr_item ''email'' (map_of p ''email'')
           @ attr_item ''account_id'' (map_of p ''account_id'')
           @ attr_item ''status'' (zoom_event_state (async_update (Fetched p) st))
         in if data \<noteq> [] then Some data else None)"
      by (rule attributes_after [OF known ne])
  }
  show "\<exists>e q. id_known e \<and> available e \<and>
      zoom_event_state (async_update (Fetched q) e) = zoom_event_state e \<and>
      is_on (async_update (Fetched q) e) = is_on e \<and>
      id_prop (async_update (Fetched q) e) \<noteq> id_prop e \<and>
      first_name (async_update (Fetched q) e) \<noteq> first_name e \<and>
      last_name (async_update (Fetched q) e) \<noteq> last_name e \<and>
      email (async_update (Fetched q) e) \<noteq> email e \<and>
      account_id (async_update (Fetched q) e) \<noteq> account_id e \<and>
      extra_state_attributes (async_update (Fetched q) e) \<noteq> extra_state_attributes e"
    using profiled_entity_changes by blast
qed

text \<open>
  A steady poll of an entity whose id comes from its profile: all five attributes and
  the attribute map go from Ann's to Bob's, while the entity stays on with Zoom state
  "Available" although the fetched status is "Away".
\<close>

theorem steady_poll_replaces_profile_witness:
  "id_known profiled_entity \<and> available profiled_entity \<and> second_profile \<noteq> [] \<and>
   zoom_event_state profiled_entity = Some ''Available'' \<and>
   zoom_event_state (async_update (Fetched second_profile) profiled_entity)
     = Some ''Available'' \<and>
   is_on profiled_entity = PBool True \<and>
   is_on (async_update (Fetched second_profile) profiled_entity) = PBool True \<and>
   priv_profile (async_update (Fetched second_profile) profiled_entity) = Some second_profile \<and>
   id_prop profiled_entity = Some ''u1'' \<and>
   id_prop (async_update (Fetched second_profile) profiled_entity) = Some ''u2'' \<and>
   first_name profiled_entity = Some ''Ann'' \<and>
   first_name (async_update (Fetched second_profile) profiled_entity) = Some ''Bob'' \<and>
   last_name profiled_entity = Some ''Lee'' \<and>
   last_name (async_update (Fetched second_profile) profiled_entity) = Some ''Ray'' \<and>
   email profiled_entity = Some ''ann@example.org'' \<and>
   email (async_update (Fetched second_profile) profiled_entity) = Some ''bob@example.org'' \<and>
   account_id profiled_entity = Some ''acc1'' \<and>
   account_id (async_update (Fetched second_profile) profiled_entity) = Some ''acc2'' \<and>
   extra_state_attributes profiled_entity =
     Some [(''id'', ''u1''), (''first_name'', ''Ann''), (''last_name'', ''Lee''),
           (''email'', ''ann@example.org''), (''account_id'', ''acc1''),
           (''status'', ''Available'')] \<and>
   extra_state_attributes (async_update (Fetched second_profile) profiled_entity) =
     Some [(''id'', ''u2''), (''first_name'', ''Bob''), (''last_name'', ''Ray''),
           (''email'', ''bob@example.org''), (''account_id'', ''acc2''),
           (''status'', ''Available'')]"
proof -
  note t = steady_poll_replaces_profile [OF profiled_entity_fields(1), of second_profile]
  from t profiled_entity_fields second_profile_fields
  have after:
    "zoom_event_state (async_update (Fetched second_profile) profiled_entity) = Some ''Available''"
    "is_on (async_update (Fetched second_profile) profiled_entity) = PBool True"
    "priv_profile (async_update (Fetched second_profile) profiled_entity) = Some second_profile"
    "id_prop (async_update (Fetched second_profile) profiled_entity) = Some ''u2''"
    "first_name (async_update (Fetched second_profile) profiled_entity) = Some ''Bob''"
    "last_name (async_update (Fetched second_profile) profiled_entity) = Some ''Ray''"
    "email (async_update (Fetched second_profile) profiled_entity) = Some ''bob@example.org''"
    "account_id (async_update (Fetched second_profile) profiled_entity) = Some ''acc2''"
    by simp_all
  note from_profile =
    t [THEN conjunct2, THEN conjunct2, THEN conjunct1, rule_format, OF second_profile_fields(1)]
  note attrs_after =
    from_profile [THEN conjunct2, THEN conjunct2, THEN conjunct2, THEN conjunct2, THEN conjunct2]
  from attrs_after profiled_entity_fields second_profile_fields after(1)
  have attrs: "extra_state_attributes (async_update (Fetched second_profile) profiled_entity) =
     Some [(''id'', ''u2''), (''first_name'', ''Bob''), (''last_name'', ''Ray''),
           (''email'', ''bob@example.org''), (''account_id'', ''acc2''),
           (''status'', ''Available'')]"
    by (simp add: attr_item_def Let_def)
  show ?thesis
    using after attrs profiled_entity_fields profiled_entity_attributes second_profile_fields(1)
    by simp
qed

end
